theory Spec2Isabelle
  imports Main "HOL-Library.Sublist"
begin

section \<open>Python strings\<close>

text \<open>
  A Python \<^verbatim>\<open>str\<close> is a sequence of Unicode code points, and \<^verbatim>\<open>len\<close> counts code
  points. The delimiter set of the list parser holds U+2022 and U+00B7, so a code point
  is a natural number here and not an 8-bit \<^typ>\<open>char\<close>. \<open>str\<close> turns an ASCII literal
  into such a string.
\<close>

type_synonym pystr = "nat list"

definition str :: "string \<Rightarrow> pystr" where
  "str s = map of_char s"

text \<open>\<^verbatim>\<open>str.isspace\<close> on one code point: the code points \<^verbatim>\<open>str.strip()\<close> removes.\<close>

definition py_isspace :: "nat \<Rightarrow> bool" where
  "py_isspace c \<longleftrightarrow>
     (9 \<le> c \<and> c \<le> 13) \<or> (28 \<le> c \<and> c \<le> 32) \<or> c = 133 \<or> c = 160 \<or> c = 5760 \<or>
     (8192 \<le> c \<and> c \<le> 8202) \<or> c = 8232 \<or> c = 8233 \<or> c = 8239 \<or> c = 8287 \<or> c = 12288"

text \<open>\<^verbatim>\<open>s.strip()\<close>: leading and trailing whitespace removed.\<close>

definition strip :: "pystr \<Rightarrow> pystr" where
  "strip s = rev (dropWhile py_isspace (rev (dropWhile py_isspace s)))"

text \<open>\<^verbatim>\<open>sub in s\<close>, \<^verbatim>\<open>s.startswith(p)\<close>.\<close>

definition py_in :: "pystr \<Rightarrow> pystr \<Rightarrow> bool" where
  "py_in sub s = sublist sub s"

definition startswith :: "pystr \<Rightarrow> pystr \<Rightarrow> bool" where
  "startswith s p = prefix p s"

text \<open>
  \<^verbatim>\<open>s.replace(sub, '')\<close> for a non-empty \<open>sub\<close>: every occurrence is removed, scanning
  from the left, without overlaps.
\<close>

function remove_all :: "pystr \<Rightarrow> pystr \<Rightarrow> pystr" where
  "remove_all sub [] = []"
| "remove_all sub (c # cs) =
     (if sub \<noteq> [] \<and> prefix sub (c # cs) then remove_all sub (drop (length sub) (c # cs))
      else c # remove_all sub cs)"
  by pat_completeness auto
termination
  by (relation "measure (\<lambda>(sub, s). length s)") auto

text \<open>\<^verbatim>\<open>sep.join(items)\<close>.\<close>

fun join :: "pystr \<Rightarrow> pystr list \<Rightarrow> pystr" where
  "join sep [] = []"
| "join sep [x] = x"
| "join sep (x # y # ys) = x @ sep @ join sep (y # ys)"

section \<open>The list parser\<close>

text \<open>
  \<^verbatim>\<open>re.split(r'[,;\<bullet>\<cdot>\n]', text)\<close> splits at every code point of the class; \<open>n\<close>
  delimiters give \<open>n + 1\<close> pieces, empty ones included.
\<close>

definition is_delimiter :: "nat \<Rightarrow> bool" where
  "is_delimiter c \<longleftrightarrow> c = 44 \<or> c = 59 \<or> c = 8226 \<or> c = 183 \<or> c = 10"

fun re_split :: "(nat \<Rightarrow> bool) \<Rightarrow> pystr \<Rightarrow> pystr list" where
  "re_split d [] = [Nil]"
| "re_split d (c # cs) =
     (if d c then [] # re_split d cs
      else (case re_split d cs of
              [] \<Rightarrow> [c # Nil]
            | p # ps \<Rightarrow> (c # p) # ps))"

text \<open>
  \<^verbatim>\<open>
  def _parse_list_field(self, text):
      if not text:
          return []
      items = re.split(r'[,;..\n]', text)
      cleaned_items = []
      for item in items:
          cleaned = item.strip()
          if cleaned and len(cleaned) > 1:
              cleaned_items.append(cleaned)
      return cleaned_items
  \<close>
\<close>

fun clean_items :: "pystr list \<Rightarrow> pystr list \<Rightarrow> pystr list" where
  "clean_items [] cleaned_items = cleaned_items"
| "clean_items (item # items) cleaned_items =
     (let cleaned = strip item in
      if cleaned \<noteq> [] \<and> length cleaned > 1
      then clean_items items (cleaned_items @ [cleaned])
      else clean_items items cleaned_items)"

definition parse_list_field :: "pystr \<Rightarrow> pystr list" where
  "parse_list_field text =
     (if text = [] then [] else clean_items (re_split is_delimiter text) [])"

text \<open>
  The rendering of a parsed list that the idempotence property speaks of: the items
  joined by a separator, which is one delimiter of the parser's set, followed by any
  whitespace that is not itself a delimiter (\<^verbatim>\<open>","\<close>, \<^verbatim>\<open>", "\<close>, \<^verbatim>\<open>"; "\<close>).
\<close>

fun is_separator :: "pystr \<Rightarrow> bool" where
  "is_separator [] = False"
| "is_separator (d # ws) =
     (is_delimiter d \<and> list_all (\<lambda>c. py_isspace c \<and> \<not> is_delimiter c) ws)"

definition parse_to_string :: "pystr \<Rightarrow> pystr list \<Rightarrow> pystr" where
  "parse_to_string sep items = join sep items"

section \<open>Library functions taken as parameters\<close>

text \<open>
  Four functions of the Python library depend on the Unicode case tables or on the URL
  grammar and are not written out here. The crawler's functions take them as the record
  \<open>L\<close>, and every general theorem below holds for all of them:
  \<^item> \<open>lower\<close>: \<^verbatim>\<open>str.lower\<close>;
  \<^item> \<open>title\<close>: \<^verbatim>\<open>str.title\<close>;
  \<^item> \<open>re_search_i pat s\<close>: \<^verbatim>\<open>re.compile(pat, re.I).search(s)\<close> finds a match, for a
    pattern of plain letters;
  \<^item> \<open>urljoin\<close>: \<^verbatim>\<open>urllib.parse.urljoin\<close>.
\<close>

record pylib =
  lower :: "pystr \<Rightarrow> pystr"
  title :: "pystr \<Rightarrow> pystr"
  re_search_i :: "pystr \<Rightarrow> pystr \<Rightarrow> bool"
  urljoin :: "pystr \<Rightarrow> pystr \<Rightarrow> pystr"

text \<open>
  One instance, used at concrete inputs only: what these functions compute on ASCII
  text, and what \<^verbatim>\<open>urljoin\<close> returns for a base without a path and an absolute-path
  reference without dot segments.
\<close>

definition ascii_lower :: "pystr \<Rightarrow> pystr" where
  "ascii_lower s = map (\<lambda>c. if 65 \<le> c \<and> c \<le> 90 then c + 32 else c) s"

definition is_ascii_letter :: "nat \<Rightarrow> bool" where
  "is_ascii_letter c \<longleftrightarrow> (65 \<le> c \<and> c \<le> 90) \<or> (97 \<le> c \<and> c \<le> 122)"

fun ascii_title_from :: "bool \<Rightarrow> pystr \<Rightarrow> pystr" where
  "ascii_title_from prev_cased [] = []"
| "ascii_title_from prev_cased (c # cs) =
     (if is_ascii_letter c
      then (if prev_cased then (if c \<le> 90 then c + 32 else c)
            else (if 97 \<le> c then c - 32 else c)) # ascii_title_from True cs
      else c # ascii_title_from False cs)"

definition ascii_lib :: pylib where
  "ascii_lib = \<lparr> lower = ascii_lower,
                 title = ascii_title_from False,
                 re_search_i = (\<lambda>pat s. py_in (ascii_lower pat) (ascii_lower s)),
                 urljoin = (\<lambda>base ref. base @ ref) \<rparr>"

section \<open>The parsed markup\<close>

text \<open>
  \<^verbatim>\<open>BeautifulSoup(page_source, 'html.parser')\<close> is a tree of tags and strings. A tag has
  a name, its attributes (a dict from attribute name to value) and its children. The
  document itself is a tag named \<^verbatim>\<open>[document]\<close>. Comments, doctypes and processing
  instructions are left out of the tree.
\<close>

datatype node = Text pystr | Elem pystr "(pystr \<times> pystr) list" "node list"

text \<open>A node together with its place in the document: the child indices from the root.\<close>

type_synonym located = "nat list \<times> node"

fun contents :: "node \<Rightarrow> node list" where
  "contents (Text s) = []"
| "contents (Elem t a cs) = cs"

fun attr :: "node \<Rightarrow> pystr \<Rightarrow> pystr option" where
  "attr (Text s) k = None"
| "attr (Elem t a cs) k = map_of a k"

fun is_tag :: "pystr \<Rightarrow> node \<Rightarrow> bool" where
  "is_tag t (Text s) = False"
| "is_tag t (Elem t' a cs) = (t' = t)"

text \<open>
  The \<^verbatim>\<open>class\<close> attribute is a list of tokens: the value split at whitespace.
  \<^verbatim>\<open>class_='c'\<close> matches a tag when one of the tokens is \<open>c\<close>.
\<close>

fun tokens :: "pystr \<Rightarrow> pystr list" where
  "tokens s = filter (\<lambda>t. t \<noteq> []) (re_split py_isspace s)"

definition has_class :: "pystr \<Rightarrow> node \<Rightarrow> bool" where
  "has_class c n = (case attr n (str ''class'') of
                      None \<Rightarrow> False
                    | Some v \<Rightarrow> c \<in> set (tokens v))"

text \<open>Document order: a node, then its children from left to right, each with its subtree.\<close>

fun walk :: "nat list \<Rightarrow> node \<Rightarrow> located list"
and walks :: "nat list \<Rightarrow> nat \<Rightarrow> node list \<Rightarrow> located list" where
  "walk p (Text s) = [(p, Text s)]"
| "walk p (Elem t a cs) = (p, Elem t a cs) # walks p 0 cs"
| "walks p i [] = []"
| "walks p i (c # cs) = walk (p @ [i]) c @ walks p (Suc i) cs"

text \<open>\<^verbatim>\<open>tag.find_all(...)\<close>: the descendants of the tag that match, in document order.\<close>

definition descendants :: "located \<Rightarrow> located list" where
  "descendants e = walks (fst e) 0 (contents (snd e))"

definition find_all :: "located \<Rightarrow> (node \<Rightarrow> bool) \<Rightarrow> located list" where
  "find_all e P = filter (\<lambda>x. P (snd x)) (descendants e)"

text \<open>\<^verbatim>\<open>tag.find_next(...)\<close>: the first match after the tag in document order.\<close>

definition following :: "node \<Rightarrow> located \<Rightarrow> located list" where
  "following soup e = tl (dropWhile (\<lambda>x. fst x \<noteq> fst e) (walk [] soup))"

definition find_next :: "node \<Rightarrow> located \<Rightarrow> (node \<Rightarrow> bool) \<Rightarrow> located option" where
  "find_next soup e P = List.find (\<lambda>x. P (snd x)) (following soup e)"

text \<open>\<^verbatim>\<open>tag.parent\<close>; the document has none.\<close>

fun node_at :: "node \<Rightarrow> nat list \<Rightarrow> node option" where
  "node_at n [] = Some n"
| "node_at n (i # p) =
     (if i < length (contents n) then node_at (contents n ! i) p else None)"

definition parent :: "node \<Rightarrow> located \<Rightarrow> located option" where
  "parent soup e =
     (if fst e = [] then None
      else (case node_at soup (butlast (fst e)) of
              None \<Rightarrow> None
            | Some n \<Rightarrow> Some (butlast (fst e), n)))"

text \<open>\<^verbatim>\<open>tag.find_next_sibling(...)\<close>: the first match among the later children of the parent.\<close>

definition next_siblings :: "node \<Rightarrow> located \<Rightarrow> located list" where
  "next_siblings soup e =
     (case parent soup e of
        None \<Rightarrow> []
      | Some par \<Rightarrow>
          map (\<lambda>i. (fst par @ [i], contents (snd par) ! i))
            [Suc (last (fst e)) ..< length (contents (snd par))])"

definition find_next_sibling :: "node \<Rightarrow> located \<Rightarrow> (node \<Rightarrow> bool) \<Rightarrow> located option" where
  "find_next_sibling soup e P = List.find (\<lambda>x. P (snd x)) (next_siblings soup e)"

text \<open>
  \<^verbatim>\<open>tag.get_text()\<close> concatenates the strings below the tag; with \<^verbatim>\<open>strip=True\<close> each
  string is stripped first and the empty ones are dropped.
\<close>

fun strings :: "node \<Rightarrow> pystr list" where
  "strings (Text s) = [s]"
| "strings (Elem t a cs) = concat (map strings cs)"

definition get_text :: "node \<Rightarrow> pystr" where
  "get_text n = concat (strings n)"

definition get_text_strip :: "node \<Rightarrow> pystr" where
  "get_text_strip n = concat (filter (\<lambda>s. s \<noteq> []) (map strip (strings n)))"

text \<open>
  \<^verbatim>\<open>tag.string\<close>: the string of a tag whose only child is a string, or whose only child
  is a tag that has one; \<^verbatim>\<open>None\<close> otherwise.
\<close>

fun string_of :: "node \<Rightarrow> pystr option" where
  "string_of (Text s) = Some s"
| "string_of (Elem t a [c]) = string_of c"
| "string_of (Elem t a cs) = None"

text \<open>\<^verbatim>\<open>link['href']\<close> of a tag found with \<^verbatim>\<open>href=True\<close>.\<close>

definition has_href :: "node \<Rightarrow> bool" where
  "has_href n \<longleftrightarrow> attr n (str ''href'') \<noteq> None"

definition href :: "node \<Rightarrow> pystr" where
  "href n = (case attr n (str ''href'') of None \<Rightarrow> [] | Some v \<Rightarrow> v)"

definition find_all_a_href :: "located \<Rightarrow> located list" where
  "find_all_a_href e = find_all e (\<lambda>n. is_tag (str ''a'') n \<and> has_href n)"

section \<open>Field locators\<close>

text \<open>\<^verbatim>\<open>soup.find_all('h3', class_='arcadia-heading-9')\<close>\<close>

definition headings :: "node \<Rightarrow> located list" where
  "headings soup =
     find_all ([], soup) (\<lambda>n. is_tag (str ''h3'') n \<and> has_class (str ''arcadia-heading-9'') n)"

text \<open>
  \<^verbatim>\<open>
  def _extract_structured_field(self, soup, field_name):
      headings = soup.find_all('h3', class_='arcadia-heading-9')
      for h3 in headings:
          if h3.get_text().strip().lower() == field_name.lower():
              next_p = h3.find_next_sibling('p')
              if next_p:
                  return next_p.get_text(strip=True)
              parent = h3.parent
              if parent:
                  next_p = parent.find_next('p')
                  if next_p:
                      return next_p.get_text(strip=True)
      return ""
  \<close>
  A tag is always true in a condition, so \<^verbatim>\<open>if next_p\<close> asks whether one was found.
\<close>

fun structured_field_loop :: "pylib \<Rightarrow> node \<Rightarrow> pystr \<Rightarrow> located list \<Rightarrow> pystr" where
  "structured_field_loop L soup field_name [] = []"
| "structured_field_loop L soup field_name (h3 # hs) =
     (if lower L (strip (get_text (snd h3))) = lower L field_name then
        (case find_next_sibling soup h3 (is_tag (str ''p'')) of
           Some next_p \<Rightarrow> get_text_strip (snd next_p)
         | None \<Rightarrow>
            (case parent soup h3 of
               None \<Rightarrow> structured_field_loop L soup field_name hs
             | Some par \<Rightarrow>
                (case find_next soup par (is_tag (str ''p'')) of
                   Some next_p \<Rightarrow> get_text_strip (snd next_p)
                 | None \<Rightarrow> structured_field_loop L soup field_name hs)))
      else structured_field_loop L soup field_name hs)"

definition extract_structured_field :: "pylib \<Rightarrow> node \<Rightarrow> pystr \<Rightarrow> pystr" where
  "extract_structured_field L soup field_name =
     structured_field_loop L soup field_name (headings soup)"

text \<open>
  \<^verbatim>\<open>
  def _extract_industries(self, soup):
      industries = []
      headings = soup.find_all('h3', class_='arcadia-heading-9')
      for h3 in headings:
          if h3.get_text().strip().lower() == 'industries':
              next_div = h3.find_next('div')
              if next_div:
                  industry_links = next_div.find_all('a', href=True)
                  for link in industry_links:
                      if 'industries=' in link.get('href', ''):
                          industry_text = link.get_text(strip=True)
                          if industry_text and industry_text not in industries:
                              industries.append(industry_text)
              break
      return industries
  \<close>
  The outer loop stops at the first heading whose text matches.
\<close>

fun industry_links_loop :: "located list \<Rightarrow> pystr list \<Rightarrow> pystr list" where
  "industry_links_loop [] industries = industries"
| "industry_links_loop (link # links) industries =
     (if py_in (str ''industries='') (href (snd link)) then
        (let industry_text = get_text_strip (snd link) in
         if industry_text \<noteq> [] \<and> industry_text \<notin> set industries
         then industry_links_loop links (industries @ [industry_text])
         else industry_links_loop links industries)
      else industry_links_loop links industries)"

definition extract_industries :: "pylib \<Rightarrow> node \<Rightarrow> pystr list" where
  "extract_industries L soup =
     (case List.find (\<lambda>h3. lower L (strip (get_text (snd h3))) = str ''industries'')
             (headings soup) of
        None \<Rightarrow> []
      | Some h3 \<Rightarrow>
         (case find_next soup h3 (is_tag (str ''div'')) of
            None \<Rightarrow> []
          | Some next_div \<Rightarrow> industry_links_loop (find_all_a_href next_div) []))"

text \<open>
  \<^verbatim>\<open>_extract_contact_info\<close>: the same walk from the first heading whose text contains
  \<^verbatim>\<open>contact links\<close>; the result is a dict from link text to target, in insertion order.
  \<^verbatim>\<open>
                  for link in contact_links:
                      href = link.get('href', '')
                      text = link.get_text(strip=True)
                      if not text or len(text.strip()) < 2:
                          continue
                      key = text.strip()
                      if 'mailto:' in href:
                          contact_info[key] = href.replace('mailto:', '')
                      else:
                          contact_info[key] = href
  \<close>
\<close>

fun dict_set :: "(pystr \<times> pystr) list \<Rightarrow> pystr \<Rightarrow> pystr \<Rightarrow> (pystr \<times> pystr) list" where
  "dict_set [] k v = [(k, v)]"
| "dict_set ((k', v') # d) k v =
     (if k' = k then (k', v) # d else (k', v') # dict_set d k v)"

fun contact_links_loop ::
  "located list \<Rightarrow> (pystr \<times> pystr) list \<Rightarrow> (pystr \<times> pystr) list" where
  "contact_links_loop [] contact_info = contact_info"
| "contact_links_loop (link # links) contact_info =
     (let h = href (snd link); text = get_text_strip (snd link) in
      if text = [] \<or> length (strip text) < 2 then contact_links_loop links contact_info
      else (let key = strip text in
            if py_in (str ''mailto:'') h
            then contact_links_loop links (dict_set contact_info key (remove_all (str ''mailto:'') h))
            else contact_links_loop links (dict_set contact_info key h)))"

definition extract_contact_info :: "pylib \<Rightarrow> node \<Rightarrow> (pystr \<times> pystr) list" where
  "extract_contact_info L soup =
     (case List.find (\<lambda>h3. py_in (str ''contact links'') (lower L (strip (get_text (snd h3)))))
             (headings soup) of
        None \<Rightarrow> []
      | Some h3 \<Rightarrow>
         (case find_next soup h3 (is_tag (str ''div'')) of
            None \<Rightarrow> []
          | Some next_div \<Rightarrow> contact_links_loop (find_all_a_href next_div) []))"

section \<open>The name\<close>

text \<open>
  \<^verbatim>\<open>_extract_text(soup, selectors)\<close> returns the stripped text of the first element that
  \<^verbatim>\<open>soup.select_one(selector)\<close> finds, trying the selectors in order. The three selectors
  the crawler passes are a tag name, an attribute with a value and a class.
\<close>

datatype selector = By_tag pystr | By_attr pystr pystr | By_class pystr

fun selects :: "selector \<Rightarrow> node \<Rightarrow> bool" where
  "selects (By_tag t) n = is_tag t n"
| "selects (By_attr k v) n = (attr n k = Some v)"
| "selects (By_class c) n = has_class c n"

definition select_one :: "node \<Rightarrow> selector \<Rightarrow> located option" where
  "select_one soup sel = List.find (\<lambda>x. selects sel (snd x)) (descendants ([], soup))"

fun extract_text :: "node \<Rightarrow> selector list \<Rightarrow> pystr" where
  "extract_text soup [] = []"
| "extract_text soup (sel # selectors) =
     (case select_one soup sel of
        Some element \<Rightarrow> get_text_strip (snd element)
      | None \<Rightarrow> extract_text soup selectors)"

text \<open>
  \<^verbatim>\<open>
  def _extract_text_by_content(self, soup, content):
      elements = soup.find_all(text=re.compile(content, re.I))
      if elements:
          return elements[0].parent.get_text(strip=True)
      return ""
  \<close>
\<close>

fun text_matches :: "pylib \<Rightarrow> pystr \<Rightarrow> node \<Rightarrow> bool" where
  "text_matches L content (Text s) = re_search_i L content s"
| "text_matches L content (Elem t a cs) = False"

definition extract_text_by_content :: "pylib \<Rightarrow> node \<Rightarrow> pystr \<Rightarrow> pystr" where
  "extract_text_by_content L soup content =
     (case find_all ([], soup) (text_matches L content) of
        [] \<Rightarrow> []
      | e # es \<Rightarrow> (case parent soup e of
                    None \<Rightarrow> []
                  | Some par \<Rightarrow> get_text_strip (snd par)))"

text \<open>
  \<^verbatim>\<open>
  def _get_name_from_url(self, url):
      name_part = url.split('/')[-1]
      return name_part.replace('-', ' ').title()
  \<close>
\<close>

definition get_name_from_url :: "pylib \<Rightarrow> pystr \<Rightarrow> pystr" where
  "get_name_from_url L url =
     title L (map (\<lambda>c. if c = 45 then 32 else c) (last (re_split (\<lambda>c. c = 47) url)))"

text \<open>\<^verbatim>\<open>a or b\<close> on strings: the first one that is not empty.\<close>

definition py_or :: "pystr \<Rightarrow> pystr \<Rightarrow> pystr" where
  "py_or a b = (if a \<noteq> [] then a else b)"

definition extract_name :: "pylib \<Rightarrow> node \<Rightarrow> pystr \<Rightarrow> pystr" where
  "extract_name L soup url =
     py_or (extract_text soup [By_tag (str ''h1'')])
    (py_or (extract_text soup [By_attr (str ''data-cy'') (str ''investor-name''),
                               By_class (str ''name'')])
    (py_or (extract_text_by_content L soup (str ''investor''))
           (get_name_from_url L url)))"

section \<open>The record extractor\<close>

record personal_contacts =
  email :: pystr
  linkedin :: pystr
  twitter :: pystr
  website :: pystr

text \<open>
  The dict \<^verbatim>\<open>investor_data\<close>. The key \<^verbatim>\<open>error\<close> is absent (\<open>None\<close>) until the handler
  sets it.
\<close>

record investor_data =
  url :: pystr
  name :: pystr
  industries :: "pystr list"
  stages :: "pystr list"
  check_range :: pystr
  bio :: pystr
  geography :: "pystr list"
  contacts :: personal_contacts
  contact_info :: "(pystr \<times> pystr) list"
  scraped_date :: pystr
  status :: pystr
  error :: "pystr option"

text \<open>
  The candidate text of the bio:
  \<^verbatim>\<open>
  bio_content = self._extract_structured_field(soup, "Bio")
  if not bio_content:
      bio_heading = soup.find('h3', string=re.compile(r'bio', re.I))
      if bio_heading:
          next_element = bio_heading.find_next(['p', 'div'])
          if next_element:
              bio_content = next_element.get_text(strip=True)
  \<close>
\<close>

definition bio_heading_matches :: "pylib \<Rightarrow> node \<Rightarrow> bool" where
  "bio_heading_matches L n \<longleftrightarrow>
     is_tag (str ''h3'') n \<and>
     (case string_of n of None \<Rightarrow> False | Some s \<Rightarrow> re_search_i L (str ''bio'') s)"

definition bio_candidate :: "pylib \<Rightarrow> node \<Rightarrow> pystr" where
  "bio_candidate L soup =
     (let bio_content = extract_structured_field L soup (str ''Bio'') in
      if bio_content \<noteq> [] then bio_content
      else (case List.find (\<lambda>x. bio_heading_matches L (snd x)) (descendants ([], soup)) of
              None \<Rightarrow> bio_content
            | Some bio_heading \<Rightarrow>
               (case find_next soup bio_heading
                       (\<lambda>n. is_tag (str ''p'') n \<or> is_tag (str ''div'') n) of
                  None \<Rightarrow> bio_content
                | Some next_element \<Rightarrow> get_text_strip (snd next_element))))"

text \<open>
  The personal contacts:
  \<^verbatim>\<open>
  for link in links:
      href = link['href']
      link_text = link.get_text().lower()
      if any(mercury_term in href for mercury_term in ['mercuryhq', 'mercury.com', 'app.mercury']):
          continue
      if 'mailto:' in href:
          personal_contacts["email"] = href.replace('mailto:', '')
      elif 'linkedin.com/in/' in href:
          personal_contacts["linkedin"] = href
      elif ('twitter.com' in href or 'x.com' in href) and '/mercury' not in href:
          personal_contacts["twitter"] = href
      elif href.startswith('http') and self.base_url not in href:
          if any(personal_indicator in link_text for personal_indicator in ['website', 'blog', 'personal']):
              personal_contacts["website"] = href
  \<close>
\<close>

definition base_url :: pystr where
  "base_url = str ''https://mercury.com''"

definition is_mercury_link :: "pystr \<Rightarrow> bool" where
  "is_mercury_link h \<longleftrightarrow>
     py_in (str ''mercuryhq'') h \<or> py_in (str ''mercury.com'') h \<or> py_in (str ''app.mercury'') h"

definition has_personal_indicator :: "pystr \<Rightarrow> bool" where
  "has_personal_indicator link_text \<longleftrightarrow>
     py_in (str ''website'') link_text \<or> py_in (str ''blog'') link_text \<or>
     py_in (str ''personal'') link_text"

fun personal_contacts_loop ::
  "pylib \<Rightarrow> located list \<Rightarrow> personal_contacts \<Rightarrow> personal_contacts" where
  "personal_contacts_loop L [] pc = pc"
| "personal_contacts_loop L (link # links) pc =
     (let h = href (snd link); link_text = lower L (get_text (snd link)) in
      if is_mercury_link h then personal_contacts_loop L links pc
      else if py_in (str ''mailto:'') h then
        personal_contacts_loop L links (pc\<lparr>email := remove_all (str ''mailto:'') h\<rparr>)
      else if py_in (str ''linkedin.com/in/'') h then
        personal_contacts_loop L links (pc\<lparr>linkedin := h\<rparr>)
      else if (py_in (str ''twitter.com'') h \<or> py_in (str ''x.com'') h)
              \<and> \<not> py_in (str ''/mercury'') h then
        personal_contacts_loop L links (pc\<lparr>twitter := h\<rparr>)
      else if startswith h (str ''http'') \<and> \<not> py_in base_url h then
        (if has_personal_indicator link_text
         then personal_contacts_loop L links (pc\<lparr>website := h\<rparr>)
         else personal_contacts_loop L links pc)
      else personal_contacts_loop L links pc)"

definition extract_personal_contacts :: "pylib \<Rightarrow> node \<Rightarrow> personal_contacts" where
  "extract_personal_contacts L soup =
     personal_contacts_loop L (find_all_a_href ([], soup))
       \<lparr>email = [], linkedin = [], twitter = [], website = []\<rparr>"

text \<open>
  The body of \<^verbatim>\<open>scrape_investor_data\<close> is one \<^verbatim>\<open>try\<close> block whose handler is
  \<^verbatim>\<open>
  except Exception as e:
      investor_data["status"] = "error"
      investor_data["error"] = str(e)
  \<close>
  The block is a sequence of statements. Each computes a value, which is where an
  exception can be raised (by the browser, the parser or the console), and then
  assigns it to the dict. Whether the computation at a stage raises, and with which
  message, is the environment's choice \<open>exc\<close>. The dict is mutated in place, so the
  handler sees the assignments made so far.
\<close>

datatype stage =
  At_load | At_name | At_industries | At_stages | At_check_range | At_geography |
  At_bio | At_contacts | At_contact_info | At_report

fun try_block ::
  "(stage \<Rightarrow> pystr option) \<Rightarrow> (stage \<times> (investor_data \<Rightarrow> investor_data)) list \<Rightarrow>
   investor_data \<Rightarrow> investor_data" where
  "try_block exc [] d = d"
| "try_block exc ((s, assign) # rest) d =
     (case exc s of
        Some e \<Rightarrow> d\<lparr>status := str ''error'', error := Some e\<rparr>
      | None \<Rightarrow> try_block exc rest (assign d))"

text \<open>
  The statements, in the order of the source. \<open>At_load\<close> is the part that renders the
  page and parses it (it assigns nothing); the assignment of \<^verbatim>\<open>"success"\<close> follows the
  contact info at once; \<open>At_report\<close> is the \<^verbatim>\<open>print\<close> after it.
\<close>

definition statements ::
  "pylib \<Rightarrow> node \<Rightarrow> pystr \<Rightarrow> (stage \<times> (investor_data \<Rightarrow> investor_data)) list" where
  "statements L soup u =
     [(At_load, \<lambda>d. d),
      (At_name, \<lambda>d. d\<lparr>name := extract_name L soup u\<rparr>),
      (At_industries, \<lambda>d. d\<lparr>industries := extract_industries L soup\<rparr>),
      (At_stages, \<lambda>d.
         (let stages_content = extract_structured_field L soup (str ''Stages'') in
          if stages_content \<noteq> [] then d\<lparr>stages := parse_list_field stages_content\<rparr> else d)),
      (At_check_range, \<lambda>d.
         (let check_range_content = extract_structured_field L soup (str ''Check Range'') in
          if check_range_content \<noteq> [] then d\<lparr>check_range := strip check_range_content\<rparr>
          else d)),
      (At_geography, \<lambda>d.
         (let geography_content = extract_structured_field L soup (str ''Geography'') in
          if geography_content \<noteq> [] then d\<lparr>geography := parse_list_field geography_content\<rparr>
          else d)),
      (At_bio, \<lambda>d.
         (let bio_content = bio_candidate L soup in
          if bio_content \<noteq> [] \<and> length bio_content > 50 then d\<lparr>bio := bio_content\<rparr> else d)),
      (At_contacts, \<lambda>d. d\<lparr>contacts := extract_personal_contacts L soup\<rparr>),
      (At_contact_info, \<lambda>d.
         d\<lparr>contact_info := extract_contact_info L soup, status := str ''success''\<rparr>),
      (At_report, \<lambda>d. d)]"

section \<open>The environment\<close>

text \<open>
  What the crawler gets from outside: the directory page (the load can fail before the
  guarded wait, which is fatal, or inside it, which the collector catches), the parsed
  markup of each detail page, the exceptions raised while one record is extracted,
  and the clock. The world records the calls to \<^verbatim>\<open>datetime.now()\<close> and the addresses
  for which an extraction was started. Waiting (\<^verbatim>\<open>time.sleep\<close>) is not modelled.
\<close>

datatype load_outcome = Load_raises pystr | Wait_raises pystr | Loaded node

record env =
  directory :: load_outcome
  pages :: "pystr \<Rightarrow> node"
  raises :: "pystr \<Rightarrow> stage \<Rightarrow> pystr option"
  clock :: "nat \<Rightarrow> pystr"

record world =
  ticks :: nat
  attempted :: "pystr list"

definition initial_data :: "pystr \<Rightarrow> pystr \<Rightarrow> investor_data" where
  "initial_data u now =
     \<lparr> url = u, name = [], industries = [], stages = [], check_range = [], bio = [],
       geography = [],
       contacts = \<lparr>email = [], linkedin = [], twitter = [], website = []\<rparr>,
       contact_info = [], scraped_date = now, status = str ''pending'', error = None \<rparr>"

definition scrape_investor_data ::
  "pylib \<Rightarrow> env \<Rightarrow> pystr \<Rightarrow> world \<Rightarrow> investor_data \<times> world" where
  "scrape_investor_data L E u w =
     (try_block (raises E u) (statements L (pages E u) u) (initial_data u (clock E (ticks w))),
      w\<lparr>ticks := Suc (ticks w), attempted := attempted w @ [u]\<rparr>)"

section \<open>The URL collector\<close>

text \<open>
  \<^verbatim>\<open>
  investor_urls = []
  links = soup.find_all('a', href=True)
  for link in links:
      href = link['href']
      if '/investor-database/' in href and href != '/investor-database':
          if href.startswith('/'):
              full_url = urljoin(self.base_url, href)
          else:
              full_url = href
          if full_url not in investor_urls:
              investor_urls.append(full_url)
  return investor_urls
  \<close>
\<close>

definition is_investor_href :: "pystr \<Rightarrow> bool" where
  "is_investor_href h \<longleftrightarrow>
     py_in (str ''/investor-database/'') h \<and> h \<noteq> str ''/investor-database''"

definition full_url :: "pylib \<Rightarrow> pystr \<Rightarrow> pystr" where
  "full_url L h = (if startswith h (str ''/'') then urljoin L base_url h else h)"

fun collect_loop :: "pylib \<Rightarrow> pystr list \<Rightarrow> pystr list \<Rightarrow> pystr list" where
  "collect_loop L [] investor_urls = investor_urls"
| "collect_loop L (h # hs) investor_urls =
     (if is_investor_href h then
        (if full_url L h \<notin> set investor_urls
         then collect_loop L hs (investor_urls @ [full_url L h])
         else collect_loop L hs investor_urls)
      else collect_loop L hs investor_urls)"

definition hrefs :: "node \<Rightarrow> pystr list" where
  "hrefs soup = map (\<lambda>link. href (snd link)) (find_all_a_href ([], soup))"

definition collect :: "pylib \<Rightarrow> node \<Rightarrow> pystr list" where
  "collect L soup = collect_loop L (hrefs soup) []"

text \<open>
  \<^verbatim>\<open>collect_investor_urls\<close>: an exception of \<^verbatim>\<open>setup_driver\<close> or \<^verbatim>\<open>driver.get\<close> leaves
  the function (\<open>Inl\<close>); one raised inside the guarded wait gives the empty list.
\<close>

definition collect_investor_urls :: "pylib \<Rightarrow> env \<Rightarrow> pystr + pystr list" where
  "collect_investor_urls L E =
     (case directory E of
        Load_raises e \<Rightarrow> Inl e
      | Wait_raises e \<Rightarrow> Inr []
      | Loaded soup \<Rightarrow> Inr (collect L soup))"

section \<open>The success rate\<close>

text \<open>
  \<^verbatim>\<open>f"{(successful_scrapes/len(investor_urls)*100):.1f}%"\<close> is computed in binary64:
  the quotient of two ints is the double nearest to the exact quotient, the product
  with 100 is the double nearest to the exact product, and the format prints the
  decimal with one digit after the point that is nearest to the exact value of that
  double; ties go to the even neighbour each time. A double is kept here as the exact
  fraction it stands for, a pair of numerator and denominator, and all arithmetic is on
  natural numbers. Only values between 0 and 100 occur, so there is no overflow.
\<close>

definition round_half_even :: "nat \<Rightarrow> nat \<Rightarrow> nat" where
  "round_half_even a b =
     (let q = a div b; r = a mod b in
      if 2 * r < b then q
      else if b < 2 * r then q + 1
      else if even q then q else q + 1)"

text \<open>\<open>\<lfloor>log\<^sub>2 (a / b)\<rfloor>\<close> for positive \<open>a\<close> and \<open>b\<close>, from the bit lengths.\<close>

fun bit_length :: "nat \<Rightarrow> nat" where
  "bit_length n = (if n = 0 then 0 else Suc (bit_length (n div 2)))"

declare bit_length.simps [simp del]

definition floor_log2 :: "nat \<Rightarrow> nat \<Rightarrow> int" where
  "floor_log2 a b =
     (let e = int (bit_length a) - int (bit_length b) in
      if (if 0 \<le> e then b * 2 ^ nat e \<le> a else b \<le> a * 2 ^ nat (- e)) then e else e - 1)"

text \<open>
  The double nearest to \<open>a / b\<close>: 53 significant bits, and no bit below \<open>2\<^sup>-\<^sup>1\<^sup>0\<^sup>7\<^sup>4\<close>.
\<close>

definition to_double :: "nat \<times> nat \<Rightarrow> nat \<times> nat" where
  "to_double x =
     (let a = fst x; b = snd x in
      if a = 0 then (0, 1)
      else (let k = max (floor_log2 a b - 52) (- 1074) in
            if 0 \<le> k then (round_half_even a (b * 2 ^ nat k) * 2 ^ nat k, 1)
            else (round_half_even (a * 2 ^ nat (- k)) b, 2 ^ nat (- k))))"

fun decimal :: "nat \<Rightarrow> pystr" where
  "decimal n = (if n < 10 then [48 + n] else decimal (n div 10) @ [48 + n mod 10])"

declare decimal.simps [simp del]

text \<open>\<^verbatim>\<open>f"{x:.1f}"\<close> for a double \<open>x \<ge> 0\<close>.\<close>

definition format_1f :: "nat \<times> nat \<Rightarrow> pystr" where
  "format_1f x =
     (let tenths = round_half_even (fst x * 10) (snd x) in
      decimal (tenths div 10) @ str ''.'' @ decimal (tenths mod 10))"

datatype py_exception = ZeroDivisionError | Raised pystr

definition success_rate :: "nat \<Rightarrow> nat \<Rightarrow> py_exception + pystr" where
  "success_rate successful n =
     (if n = 0 then Inl ZeroDivisionError
      else (let quotient = to_double (successful, n);
                percent = to_double (fst quotient * 100, snd quotient)
            in Inr (format_1f percent @ str ''%'')))"

section \<open>The crawl driver\<close>

record metadata =
  start_date :: pystr
  completion_date :: pystr
  total_investors :: nat
  successful_scrapes :: nat
  failed_scrapes :: nat
  success_rate_text :: pystr

text \<open>
  The two dicts the driver returns: \<^verbatim>\<open>{"error": "No URLs found"}\<close>, or the summary
  \<^verbatim>\<open>{"metadata": {...}, "investors": [...]}\<close>.
\<close>

datatype crawl_result = No_urls pystr | Summary metadata "investor_data list"

text \<open>The value under \<^verbatim>\<open>metadata.total_investors\<close>, when the result has that key.\<close>

fun reported_total :: "crawl_result \<Rightarrow> nat option" where
  "reported_total (No_urls e) = None"
| "reported_total (Summary m investors) = Some (total_investors m)"

text \<open>
  \<^verbatim>\<open>
  for i, url in enumerate(investor_urls, 1):
      investor_data = self.scrape_investor_data(url)
      investors_data.append(investor_data)
      if investor_data["status"] == "success":
          successful_scrapes += 1
      else:
          failed_scrapes += 1
  \<close>
\<close>

fun scrape_loop ::
  "pylib \<Rightarrow> env \<Rightarrow> pystr list \<Rightarrow> investor_data list \<times> nat \<times> nat \<Rightarrow> world \<Rightarrow>
   (investor_data list \<times> nat \<times> nat) \<times> world" where
  "scrape_loop L E [] acc w = (acc, w)"
| "scrape_loop L E (u # us) (investors_data, successful, failed) w =
     (let r = scrape_investor_data L E u w in
      if status (fst r) = str ''success''
      then scrape_loop L E us (investors_data @ [fst r], successful + 1, failed) (snd r)
      else scrape_loop L E us (investors_data @ [fst r], successful, failed + 1) (snd r))"

text \<open>
  \<^verbatim>\<open>
  def crawl_all_investors(self):
      start_time = datetime.now()
      investor_urls = self.collect_investor_urls()
      if not investor_urls:
          return {"error": "No URLs found"}
      ... the loop ...
      result = {"metadata": {..., "total_investors": len(investor_urls), ...,
                "success_rate": f"{(successful_scrapes/len(investor_urls)*100):.1f}%"},
                "investors": investors_data}
      return result
  \<close>
  \<open>Inl\<close> is an exception that leaves the function.
\<close>

definition crawl_all_investors ::
  "pylib \<Rightarrow> env \<Rightarrow> world \<Rightarrow> (py_exception + crawl_result) \<times> world" where
  "crawl_all_investors L E w =
     (let start_time = clock E (ticks w); w1 = w\<lparr>ticks := Suc (ticks w)\<rparr> in
      case collect_investor_urls L E of
        Inl e \<Rightarrow> (Inl (Raised e), w1)
      | Inr investor_urls \<Rightarrow>
          if investor_urls = [] then (Inr (No_urls (str ''No URLs found'')), w1)
          else (let run = scrape_loop L E investor_urls ([], 0, 0) w1;
                    investors_data = fst (fst run);
                    successful = fst (snd (fst run));
                    failed = snd (snd (fst run));
                    w2 = snd run;
                    w3 = w2\<lparr>ticks := Suc (ticks w2)\<rparr>
                in case success_rate successful (length investor_urls) of
                     Inl e \<Rightarrow> (Inl e, w3)
                   | Inr rate \<Rightarrow>
                       (Inr (Summary
                          \<lparr> start_date = start_time,
                            completion_date = clock E (ticks w2),
                            total_investors = length investor_urls,
                            successful_scrapes = successful,
                            failed_scrapes = failed,
                            success_rate_text = rate \<rparr>
                          investors_data), w3)))"

section \<open>Notions used to state the properties\<close>

text \<open>
  The procedure the specification describes for industries and for geography, for a
  heading label and a filter parameter: from the first heading whose text is the label,
  go to the next \<^verbatim>\<open>div\<close> and collect the stripped text of every link in it whose target
  contains the parameter, each text once, in document order.
\<close>

fun filter_links_loop :: "pystr \<Rightarrow> located list \<Rightarrow> pystr list \<Rightarrow> pystr list" where
  "filter_links_loop param [] found = found"
| "filter_links_loop param (link # links) found =
     (if py_in param (href (snd link)) then
        (let t = get_text_strip (snd link) in
         if t \<noteq> [] \<and> t \<notin> set found
         then filter_links_loop param links (found @ [t])
         else filter_links_loop param links found)
      else filter_links_loop param links found)"

definition spec_link_field :: "pylib \<Rightarrow> node \<Rightarrow> pystr \<Rightarrow> pystr \<Rightarrow> pystr list" where
  "spec_link_field L soup label param =
     (case List.find (\<lambda>h3. lower L (strip (get_text (snd h3))) = label) (headings soup) of
        None \<Rightarrow> []
      | Some h3 \<Rightarrow>
         (case find_next soup h3 (is_tag (str ''div'')) of
            None \<Rightarrow> []
          | Some next_div \<Rightarrow> filter_links_loop param (find_all_a_href next_div) []))"

text \<open>
  The four categories of personal contacts: the branch of the classification that an
  anchor takes, the value that branch stores, and the key it stores it under.
\<close>

datatype category = Email | Linkedin | Twitter | Website

definition category_of :: "pylib \<Rightarrow> located \<Rightarrow> category option" where
  "category_of L link =
     (let h = href (snd link); link_text = lower L (get_text (snd link)) in
      if is_mercury_link h then None
      else if py_in (str ''mailto:'') h then Some Email
      else if py_in (str ''linkedin.com/in/'') h then Some Linkedin
      else if (py_in (str ''twitter.com'') h \<or> py_in (str ''x.com'') h)
              \<and> \<not> py_in (str ''/mercury'') h then Some Twitter
      else if startswith h (str ''http'') \<and> \<not> py_in base_url h
              \<and> has_personal_indicator link_text then Some Website
      else None)"

fun stored_value :: "category \<Rightarrow> located \<Rightarrow> pystr" where
  "stored_value Email link = remove_all (str ''mailto:'') (href (snd link))"
| "stored_value Linkedin link = href (snd link)"
| "stored_value Twitter link = href (snd link)"
| "stored_value Website link = href (snd link)"

fun contact :: "category \<Rightarrow> personal_contacts \<Rightarrow> pystr" where
  "contact Email pc = email pc"
| "contact Linkedin pc = linkedin pc"
| "contact Twitter pc = twitter pc"
| "contact Website pc = website pc"

text \<open>The anchors of one category, and the last of them in document order.\<close>

definition last_match :: "pylib \<Rightarrow> category \<Rightarrow> located list \<Rightarrow> located option" where
  "last_match L c links =
     (case rev (filter (\<lambda>link. category_of L link = Some c) links) of
        [] \<Rightarrow> None
      | link # earlier \<Rightarrow> Some link)"

text \<open>What the driver's result says, as one value: the keys of the returned dict.\<close>

fun returned :: "(py_exception + crawl_result) \<times> world \<Rightarrow> crawl_result option" where
  "returned (Inl e, w) = None"
| "returned (Inr r, w) = Some r"

section \<open>Concrete pages\<close>

definition document :: "node list \<Rightarrow> node" where
  "document cs = Elem (str ''[document]'') [] cs"

definition heading :: "string \<Rightarrow> node" where
  "heading t = Elem (str ''h3'') [(str ''class'', str ''arcadia-heading-9'')] [Text (str t)]"

definition para :: "string \<Rightarrow> node" where
  "para t = Elem (str ''p'') [] [Text (str t)]"

definition anchor :: "string \<Rightarrow> string \<Rightarrow> node" where
  "anchor h t = Elem (str ''a'') [(str ''href'', str h)] [Text (str t)]"

text \<open>A detail page with the geography in a paragraph and two \<^verbatim>\<open>mailto:\<close> anchors.\<close>

definition page_jane :: node where
  "page_jane = document
     [Elem (str ''h1'') [] [Text (str ''Jane Doe'')],
      heading ''Geography'',
      para ''United States, Canada'',
      heading ''Bio'',
      para ''Angel investor.'',
      anchor ''mailto:jane@x.com'' ''Email'',
      anchor ''https://mercury.com/blog'' ''Blog'',
      anchor ''mailto:jd@y.org'' ''Other'']"

text \<open>A detail page whose bio has 62 characters.\<close>

definition page_bio :: node where
  "page_bio = document
     [heading ''Bio'',
      para ''Invests in early-stage fintech and developer tools since 2012.'']"

text \<open>A detail page with the geography as filter links in a \<^verbatim>\<open>div\<close>.\<close>

definition page_geo_links :: node where
  "page_geo_links = document
     [heading ''Geography'',
      Elem (str ''div'') [] [anchor ''/investor-database?geography=US'' ''US'']]"

text \<open>Directory pages: one with three anchors, one with none that match.\<close>

definition directory_page :: node where
  "directory_page = document
     [anchor ''/investor-database/jane-doe'' ''Jane Doe'',
      anchor ''/investor-database'' ''All investors'',
      anchor ''/pricing'' ''Pricing'',
      anchor ''https://mercury.com/investor-database/adam-gries'' ''Adam Gries'',
      anchor ''/investor-database/jane-doe'' ''Jane'']"

definition empty_directory_page :: node where
  "empty_directory_page = document [anchor ''/pricing'' ''Pricing'']"

definition self_directory_page :: node where
  "self_directory_page = document [anchor ''/investor-database/'' ''Investor database'']"

definition world0 :: world where
  "world0 = \<lparr>ticks = 0, attempted = []\<rparr>"

definition env_of :: "node \<Rightarrow> node \<Rightarrow> (stage \<Rightarrow> pystr option) \<Rightarrow> env" where
  "env_of dir page exc =
     \<lparr> directory = Loaded dir, pages = (\<lambda>u. page), raises = (\<lambda>u. exc),
       clock = (\<lambda>n. str ''2024-01-01T00:00:00'') \<rparr>"

definition no_fault :: "stage \<Rightarrow> pystr option" where
  "no_fault s = None"


definition url_jane :: pystr where
  "url_jane = str ''https://mercury.com/investor-database/jane-doe''"

section \<open>Properties of the list parser\<close>

lemma clean_items_filter:
  "clean_items items acc = acc @ filter (\<lambda>s. length s > 1) (map strip items)"
  by (induction items arbitrary: acc) (auto simp: Let_def)

lemma re_split_nonempty: "re_split d s \<noteq> []"
  by (induction s) (auto split: list.splits)

lemma re_split_no_delim:
  "p \<in> set (re_split d s) \<Longrightarrow> c \<in> set p \<Longrightarrow> \<not> d c"
proof (induction s arbitrary: p)
  case Nil
  then show ?case by simp
next
  case (Cons a s)
  show ?case
  proof (cases "d a")
    case True
    with Cons show ?thesis by auto
  next
    case False
    then obtain q qs where q: "re_split d s = q # qs"
      using re_split_nonempty[of d s] by (cases "re_split d s") auto
    with False Cons.prems have "p = a # q \<or> p \<in> set qs" by auto
    then show ?thesis
      using Cons.IH[of q] Cons.IH[of p] Cons.prems(2) q False by auto
  qed
qed

lemma set_strip: "c \<in> set (strip s) \<Longrightarrow> c \<in> set s"
  unfolding strip_def by (auto dest!: set_dropWhileD)

lemma strip_idem: "strip (strip s) = strip s"
proof -
  define u where "u = dropWhile py_isspace s"
  define v where "v = dropWhile py_isspace (rev u)"
  have s: "strip s = rev v" by (simp add: strip_def u_def v_def)
  have a: "dropWhile py_isspace (rev v) = rev v"
  proof (cases "v = []")
    case True then show ?thesis by simp
  next
    case False
    have "rev u = takeWhile py_isspace (rev u) @ v" by (simp add: v_def)
    with False have "last v = last (rev u)" by (metis last_appendR)
    moreover from False have "u \<noteq> []" by (auto simp: v_def)
    ultimately have "last v = hd u" by (simp add: last_rev)
    moreover have "\<not> py_isspace (hd u)"
      using \<open>u \<noteq> []\<close> unfolding u_def by (rule hd_dropWhile)
    ultimately have "\<not> py_isspace (hd (rev v))" using False by (simp add: hd_rev)
    then show ?thesis by (simp add: dropWhile_eq_self_iff)
  qed
  have b: "dropWhile py_isspace v = v" by (simp add: v_def)
  show ?thesis unfolding s by (simp add: strip_def a b)
qed

lemma re_split_clean: "\<forall>c\<in>set x. \<not> d c \<Longrightarrow> re_split d x = [x]"
  by (induction x) auto

lemma re_split_append:
  "\<forall>c\<in>set x. \<not> d c \<Longrightarrow> d d0 \<Longrightarrow> re_split d (x @ d0 # r) = x # re_split d r"
  by (induction x) auto

lemma re_split_join:
  assumes "d d0" and "\<forall>c\<in>set ws. \<not> d c" and "\<forall>x\<in>set items. \<forall>c\<in>set x. \<not> d c"
    and "items \<noteq> []" and "\<forall>c\<in>set p. \<not> d c"
  shows "re_split d (p @ join (d0 # ws) items) = (p @ hd items) # map ((@) ws) (tl items)"
  using assms(3-5)
proof (induction items arbitrary: p)
  case Nil
  then show ?case by simp
next
  case (Cons x items)
  show ?case
  proof (cases items)
    case Nil
    with Cons.prems show ?thesis using re_split_clean[of "p @ x" d] by auto
  next
    case (Cons y ys)
    have "re_split d (ws @ join (d0 # ws) items) = (ws @ hd items) # map ((@) ws) (tl items)"
      using Cons.prems(1) Cons assms(2) by (intro Cons.IH) auto
    moreover have "re_split d ((p @ x) @ d0 # (ws @ join (d0 # ws) items)) =
        (p @ x) # re_split d (ws @ join (d0 # ws) items)"
      using Cons.prems assms(1) by (intro re_split_append) auto
    ultimately show ?thesis using Cons by simp
  qed
qed

lemma strip_leading_space: "\<forall>c\<in>set ws. py_isspace c \<Longrightarrow> strip (ws @ y) = strip y"
  by (simp add: strip_def)

lemma parse_items_clean:
  assumes "x \<in> set (parse_list_field t)"
  shows "(\<forall>c\<in>set x. \<not> is_delimiter c) \<and> strip x = x \<and> length x > 1"
proof -
  from assms obtain p where p: "p \<in> set (re_split is_delimiter t)" "x = strip p" "length x > 1"
    by (auto simp: parse_list_field_def clean_items_filter split: if_splits)
  then show ?thesis
    by (auto simp: strip_idem dest: set_strip re_split_no_delim)
qed

lemma join_nonempty: "items \<noteq> [] \<Longrightarrow> \<forall>x\<in>set items. x \<noteq> [] \<Longrightarrow> join sep items \<noteq> []"
  by (induction sep items rule: join.induct) auto

text \<open>
  C7. The list parser is idempotent on its own output: for every text \<open>x\<close>, rendering
  \<open>parse_list_field x\<close> with a separator between the items and parsing that rendering
  gives \<open>parse_list_field x\<close> again.
\<close>

theorem parse_list_field_idempotent:
  assumes "is_separator sep"
  shows "parse_list_field (parse_to_string sep (parse_list_field x)) = parse_list_field x"
proof (cases "parse_list_field x = []")
  case True
  then show ?thesis by (simp add: parse_to_string_def parse_list_field_def)
next
  case False
  let ?items = "parse_list_field x"
  from assms obtain d ws where sep: "sep = d # ws" "is_delimiter d"
    and ws: "\<forall>c\<in>set ws. py_isspace c \<and> \<not> is_delimiter c"
    by (cases sep) (auto simp: list_all_iff)
  have c: "\<forall>y\<in>set ?items. (\<forall>c\<in>set y. \<not> is_delimiter c) \<and> strip y = y \<and> length y > 1"
    using parse_items_clean by blast
  then have ne: "join sep ?items \<noteq> []"
    using False by (intro join_nonempty) auto
  have "re_split is_delimiter ([] @ join (d # ws) ?items) =
      ([] @ hd ?items) # map ((@) ws) (tl ?items)"
    using sep(2) ws c False by (intro re_split_join) auto
  then have sp: "re_split is_delimiter (join sep ?items) = hd ?items # map ((@) ws) (tl ?items)"
    by (simp add: sep(1))
  have "strip (hd ?items) = hd ?items" using c False by simp
  moreover have "map strip (map ((@) ws) (tl ?items)) = tl ?items"
  proof -
    have "\<forall>y\<in>set (tl ?items). strip (ws @ y) = y"
      using c ws strip_leading_space[of ws] by (metis list.set_sel(2) False)
    then show ?thesis by (simp add: map_idI)
  qed
  ultimately have "map strip (re_split is_delimiter (join sep ?items)) = ?items"
    using sp False by simp
  moreover have "filter (\<lambda>s. length s > 1) ?items = ?items" using c by (simp add: filter_id_conv)
  ultimately show ?thesis
    using ne by (simp add: parse_to_string_def parse_list_field_def[of "join sep ?items"]
        clean_items_filter)
qed

theorem parse_list_field_idempotent_witness:
  "is_separator (str '', '') \<and>
   parse_list_field (str ''Seed, x ,Series A; Series B'') =
     [str ''Seed'', str ''Series A'', str ''Series B''] \<and>
   parse_to_string (str '', '') (parse_list_field (str ''Seed, x ,Series A; Series B'')) =
     str ''Seed, Series A, Series B'' \<and>
   parse_list_field (str ''Seed, Series A, Series B'') =
     [str ''Seed'', str ''Series A'', str ''Series B'']"
proof -
  have s: "is_separator (str '', '')"
    by (simp add: is_delimiter_def py_isspace_def str_def)
  have p: "parse_list_field (str ''Seed, x ,Series A; Series B'') =
      [str ''Seed'', str ''Series A'', str ''Series B'']"
    by (simp add: is_delimiter_def parse_list_field_def str_def strip_def py_isspace_def)
  have j: "parse_to_string (str '', '') [str ''Seed'', str ''Series A'', str ''Series B''] =
      str ''Seed, Series A, Series B''"
    by (simp add: parse_to_string_def str_def)
  show ?thesis
    using s p j parse_list_field_idempotent[OF s, of "str ''Seed, x ,Series A; Series B''"]
    by simp
qed

section \<open>Properties of the record extractor\<close>

lemma status_values:
  "str ''success'' \<noteq> str ''error''" "str ''pending'' \<noteq> str ''error''"
  "str ''pending'' \<noteq> str ''success''"
  by (simp_all add: str_def)

lemma try_block_invariant:
  assumes "P d"
    and "\<And>s f d'. (s, f) \<in> set S \<Longrightarrow> P d' \<Longrightarrow> P (f d')"
    and "\<And>d' e. P d' \<Longrightarrow> P (d'\<lparr>status := str ''error'', error := Some e\<rparr>)"
  shows "P (try_block exc S d)"
  using assms
proof (induction S arbitrary: d)
  case Nil
  then show ?case by simp
next
  case (Cons x S)
  obtain s f where x: "x = (s, f)" by (cases x)
  show ?case
  proof (cases "exc s")
    case None
    have "P (f d)" using Cons.prems(1) Cons.prems(2)[of s f d] x by simp
    then have "P (try_block exc S (f d))"
      using Cons.prems(2,3) by (intro Cons.IH) auto
    with None x show ?thesis by simp
  next
    case (Some e)
    with x Cons.prems(1,3) show ?thesis by simp
  qed
qed



lemma try_block_outcome:
  "(\<exists>e. status (try_block exc S d) = str ''error'' \<and> error (try_block exc S d) = Some e) \<or>
   try_block exc S d = foldl (\<lambda>d f. f d) d (map snd S)"
proof (induction S arbitrary: d)
  case Nil
  then show ?case by simp
next
  case (Cons x S)
  obtain s f where x: "x = (s, f)" by (cases x)
  show ?case using Cons.IH[of "f d"] x by (cases "exc s") auto
qed




lemma statements_bio:
  assumes "(s, f) \<in> set (statements L soup u)"
    and "bio d = [] \<or> (bio d = bio_candidate L soup \<and> length (bio_candidate L soup) > 50)"
  shows "bio (f d) = [] \<or> (bio (f d) = bio_candidate L soup \<and> length (bio_candidate L soup) > 50)"
  using assms by (auto simp: statements_def Let_def split: if_splits)

lemma scrape_no_fault:
  assumes "\<forall>s. raises E u s = None"
  shows "fst (scrape_investor_data L E u w) =
           \<lparr> url = u,
             name = extract_name L (pages E u) u,
             industries = extract_industries L (pages E u),
             stages = parse_list_field (extract_structured_field L (pages E u) (str ''Stages'')),
             check_range = strip (extract_structured_field L (pages E u) (str ''Check Range'')),
             bio = (if 50 < length (bio_candidate L (pages E u))
                    then bio_candidate L (pages E u) else []),
             geography =
               parse_list_field (extract_structured_field L (pages E u) (str ''Geography'')),
             contacts = extract_personal_contacts L (pages E u),
             contact_info = extract_contact_info L (pages E u),
             scraped_date = clock E (ticks w),
             status = str ''success'',
             error = None \<rparr>"
  using assms
  by (auto simp: scrape_investor_data_def statements_def initial_data_def Let_def
      parse_list_field_def strip_def)

text \<open>Evaluation of the locators on the concrete pages.\<close>

lemmas markup_defs =
  document_def heading_def para_def anchor_def headings_def find_all_def descendants_def
  has_class_def find_next_sibling_def next_siblings_def parent_def find_next_def following_def
  get_text_def get_text_strip_def strip_def py_isspace_def find_all_a_href_def has_href_def
  href_def py_in_def sublist_code(3) startswith_def str_def ascii_lib_def ascii_lower_def

lemma geography_jane:
  "extract_structured_field ascii_lib page_jane (str ''Geography'') = str ''United States, Canada''"
  by (simp add: extract_structured_field_def page_jane_def markup_defs)

lemma parse_geography_jane:
  "parse_list_field (str ''United States, Canada'') = [str ''United States'', str ''Canada'']"
  by (simp add: parse_list_field_def is_delimiter_def strip_def py_isspace_def str_def)

lemma bio_jane: "bio_candidate ascii_lib page_jane = str ''Angel investor.''"
  by (simp add: bio_candidate_def extract_structured_field_def page_jane_def markup_defs)

lemma bio_page_bio:
  "bio_candidate ascii_lib page_bio =
     str ''Invests in early-stage fintech and developer tools since 2012.''"
  by (simp add: bio_candidate_def extract_structured_field_def page_bio_def markup_defs)

lemma env_of_simps:
  "directory (env_of dir page exc) = Loaded dir"
  "pages (env_of dir page exc) u = page"
  "raises (env_of dir page exc) u = exc"
  by (simp_all add: env_of_def)





text \<open>
  C8. The bio of the returned record is empty whenever the candidate text has at most 50
  characters; a bio that is not empty is the candidate text and has more than 50.
\<close>

theorem bio_gate:
  "(length (bio_candidate L (pages E u)) \<le> 50 \<longrightarrow>
      bio (fst (scrape_investor_data L E u w)) = []) \<and>
   (bio (fst (scrape_investor_data L E u w)) \<noteq> [] \<longrightarrow>
      bio (fst (scrape_investor_data L E u w)) = bio_candidate L (pages E u) \<and>
      50 < length (bio (fst (scrape_investor_data L E u w))))"
proof -
  let ?c = "bio_candidate L (pages E u)"
  let ?P = "\<lambda>d. bio d = [] \<or> (bio d = ?c \<and> length ?c > 50)"
  have "?P (try_block (raises E u) (statements L (pages E u) u) (initial_data u (clock E (ticks w))))"
  proof (rule try_block_invariant)
    show "?P (initial_data u (clock E (ticks w)))" by (simp add: initial_data_def)
  next
    fix s f and d' :: investor_data
    assume "(s, f) \<in> set (statements L (pages E u) u)" "?P d'"
    then show "?P (f d')" by (rule statements_bio)
  next
    fix d' :: investor_data and e assume "?P d'"
    then show "?P (d'\<lparr>status := str ''error'', error := Some e\<rparr>)" by simp
  qed
  then have "?P (fst (scrape_investor_data L E u w))" by (simp add: scrape_investor_data_def)
  then show ?thesis by auto
qed

theorem bio_gate_witness:
  "length (bio_candidate ascii_lib page_jane) \<le> 50 \<and>
   bio (fst (scrape_investor_data ascii_lib (env_of directory_page page_jane no_fault)
          url_jane world0)) = [] \<and>
   bio (fst (scrape_investor_data ascii_lib (env_of directory_page page_bio no_fault)
          url_jane world0)) \<noteq> [] \<and>
   bio (fst (scrape_investor_data ascii_lib (env_of directory_page page_bio no_fault)
          url_jane world0)) =
     str ''Invests in early-stage fintech and developer tools since 2012.'' \<and>
   50 < length (bio (fst (scrape_investor_data ascii_lib
          (env_of directory_page page_bio no_fault) url_jane world0)))"
proof -
  have short: "length (bio_candidate ascii_lib page_jane) \<le> 50"
    by (simp add: bio_jane) (simp add: str_def)
  have filled: "bio (fst (scrape_investor_data ascii_lib
      (env_of directory_page page_bio no_fault) url_jane world0)) \<noteq> []"
    by (simp add: scrape_no_fault env_of_simps no_fault_def bio_page_bio) (simp add: str_def)
  show ?thesis
    using short filled
      bio_gate[of ascii_lib "env_of directory_page page_jane no_fault" url_jane world0]
      bio_gate[of ascii_lib "env_of directory_page page_bio no_fault" url_jane world0]
    by (simp add: env_of_simps bio_page_bio)
qed



section \<open>Properties of the URL collector\<close>

lemma first_seen_snoc:
  "rev (remdups (rev (xs @ [x]))) =
     (if x \<in> set xs then rev (remdups (rev xs)) else rev (remdups (rev xs)) @ [x])"
  by simp

lemma collect_loop_first_seen:
  "collect_loop L hs (rev (remdups (rev ys))) =
     rev (remdups (rev (ys @ map (full_url L) (filter is_investor_href hs))))"
proof (induction hs arbitrary: ys)
  case Nil
  then show ?case by simp
next
  case (Cons h hs)
  show ?case
  proof (cases "is_investor_href h")
    case False
    then show ?thesis using Cons.IH[of ys] by simp
  next
    case True
    show ?thesis
    proof (cases "full_url L h \<in> set ys")
      case True
      then have "rev (remdups (rev (ys @ [full_url L h]))) = rev (remdups (rev ys))" by simp
      then show ?thesis
        using Cons.IH[of "ys @ [full_url L h]"] True \<open>is_investor_href h\<close> by simp
    next
      case False
      then have "rev (remdups (rev (ys @ [full_url L h]))) = rev (remdups (rev ys)) @ [full_url L h]"
        by simp
      then show ?thesis
        using Cons.IH[of "ys @ [full_url L h]"] False \<open>is_investor_href h\<close> by simp
    qed
  qed
qed

text \<open>
  C4. For every directory markup, \<open>collect\<close> returns the targets of the anchors that
  contain \<^verbatim>\<open>/investor-database/\<close> and are not exactly \<^verbatim>\<open>/investor-database\<close>, those that
  begin with \<^verbatim>\<open>/\<close> joined to the base address; each address once, at the place of its
  first occurrence (\<open>remdups\<close> keeps the last occurrence, so the list is reversed around
  it). When no anchor matches the result is the empty list, and the collector returns
  the list and does not raise once the page is loaded.
\<close>

theorem collect_first_seen:
  "collect L soup = rev (remdups (rev (map (full_url L) (filter is_investor_href (hrefs soup))))) \<and>
   set (collect L soup) = full_url L ` {h \<in> set (hrefs soup). is_investor_href h} \<and>
   distinct (collect L soup) \<and>
   ((\<forall>h \<in> set (hrefs soup). \<not> is_investor_href h) \<longrightarrow> collect L soup = []) \<and>
   (directory E = Loaded soup \<longrightarrow> collect_investor_urls L E = Inr (collect L soup))"
proof -
  have c: "collect L soup =
      rev (remdups (rev (map (full_url L) (filter is_investor_href (hrefs soup)))))"
    using collect_loop_first_seen[of L "hrefs soup" "[]"] by (simp add: collect_def)
  have e: "(\<forall>h \<in> set (hrefs soup). \<not> is_investor_href h) \<longrightarrow> collect L soup = []"
    unfolding c by (simp add: filter_empty_conv)
  have d: "directory E = Loaded soup \<longrightarrow> collect_investor_urls L E = Inr (collect L soup)"
    by (simp add: collect_investor_urls_def)
  have s: "set (collect L soup) = full_url L ` {h \<in> set (hrefs soup). is_investor_href h}"
    unfolding c by auto
  have "distinct (collect L soup)" unfolding c by simp
  with c e d s show ?thesis by blast
qed

lemma hrefs_directory_page:
  "hrefs directory_page =
     [str ''/investor-database/jane-doe'', str ''/investor-database'', str ''/pricing'',
      str ''https://mercury.com/investor-database/adam-gries'', str ''/investor-database/jane-doe'']"
  by (simp add: hrefs_def directory_page_def markup_defs)

lemma hrefs_empty_directory_page: "hrefs empty_directory_page = [str ''/pricing'']"
  by (simp add: hrefs_def empty_directory_page_def markup_defs)

lemma hrefs_self_directory_page: "hrefs self_directory_page = [str ''/investor-database/'']"
  by (simp add: hrefs_def self_directory_page_def markup_defs)

lemmas url_defs = is_investor_href_def full_url_def base_url_def py_in_def sublist_code(3)
  startswith_def str_def ascii_lib_def

theorem collect_first_seen_witness:
  "hrefs empty_directory_page = [str ''/pricing''] \<and>
   \<not> is_investor_href (str ''/pricing'') \<and>
   collect ascii_lib empty_directory_page = [] \<and>
   directory (env_of directory_page page_jane no_fault) = Loaded directory_page \<and>
   collect_investor_urls ascii_lib (env_of directory_page page_jane no_fault) =
     Inr [str ''https://mercury.com/investor-database/jane-doe'',
          str ''https://mercury.com/investor-database/adam-gries'']"
proof -
  have none: "\<forall>h \<in> set (hrefs empty_directory_page). \<not> is_investor_href h"
    by (simp add: hrefs_empty_directory_page url_defs)
  have loaded: "directory (env_of directory_page page_jane no_fault) = Loaded directory_page"
    by (simp add: env_of_def)
  have "rev (remdups (rev (map (full_url ascii_lib) (filter is_investor_href (hrefs directory_page))))) =
      [str ''https://mercury.com/investor-database/jane-doe'',
       str ''https://mercury.com/investor-database/adam-gries'']"
    by (simp add: hrefs_directory_page url_defs)
  moreover have "collect ascii_lib empty_directory_page = []"
    using none collect_first_seen[of ascii_lib empty_directory_page
        "env_of directory_page page_jane no_fault", THEN conjunct2, THEN conjunct2,
        THEN conjunct2, THEN conjunct1]
    by (rule rev_mp)
  moreover have "collect ascii_lib directory_page =
      rev (remdups (rev (map (full_url ascii_lib) (filter is_investor_href (hrefs directory_page)))))"
    by (rule collect_first_seen[of ascii_lib directory_page
        "env_of directory_page page_jane no_fault", THEN conjunct1])
  moreover have "collect_investor_urls ascii_lib (env_of directory_page page_jane no_fault) =
      Inr (collect ascii_lib directory_page)"
    using loaded collect_first_seen[of ascii_lib directory_page
        "env_of directory_page page_jane no_fault", THEN conjunct2, THEN conjunct2,
        THEN conjunct2, THEN conjunct2]
    by (rule rev_mp)
  moreover have "\<not> is_investor_href (str ''/pricing'')"
    by (simp add: url_defs)
  ultimately show ?thesis using loaded by (simp add: hrefs_empty_directory_page)
qed

text \<open>
  C10. The target \<^verbatim>\<open>/investor-database/\<close> contains the path segment and differs from the
  bare path, so for the directory page whose only anchor has that target \<open>collect\<close>
  returns the directory's own address with a trailing slash.
\<close>

theorem collect_keeps_directory_with_slash:
  "py_in (str ''/investor-database/'') (str ''/investor-database/'') \<and>
   str ''/investor-database/'' \<noteq> str ''/investor-database'' \<and>
   hrefs self_directory_page = [str ''/investor-database/''] \<and>
   collect L self_directory_page = [urljoin L base_url (str ''/investor-database/'')] \<and>
   collect ascii_lib self_directory_page = [str ''https://mercury.com/investor-database/'']"
proof -
  have a: "py_in (str ''/investor-database/'') (str ''/investor-database/'')"
    by (simp add: py_in_def)
  have b: "str ''/investor-database/'' \<noteq> str ''/investor-database''" by (simp add: str_def)
  have k: "is_investor_href (str ''/investor-database/'')"
    using a b by (simp add: is_investor_href_def)
  have f: "full_url L (str ''/investor-database/'') = urljoin L base_url (str ''/investor-database/'')"
    for L by (simp add: full_url_def startswith_def str_def)
  have c: "collect L self_directory_page = [urljoin L base_url (str ''/investor-database/'')]" for L
    using k f[of L] by (simp add: collect_def hrefs_self_directory_page)
  have "urljoin ascii_lib base_url (str ''/investor-database/'') =
        str ''https://mercury.com/investor-database/''"
    by (simp add: ascii_lib_def base_url_def str_def)
  with a b c[of L] c[of ascii_lib] show ?thesis by (simp add: hrefs_self_directory_page)
qed

theorem collect_keeps_directory_with_slash_witness:
  "collect ascii_lib self_directory_page = [str ''https://mercury.com/investor-database/'']"
  by (rule collect_keeps_directory_with_slash[of ascii_lib, THEN conjunct2, THEN conjunct2,
        THEN conjunct2, THEN conjunct2])


section \<open>Properties of the contact classification\<close>

lemma last_match_Cons:
  "last_match L c (link # links) =
     (case last_match L c links of
        Some l \<Rightarrow> Some l
      | None \<Rightarrow> if category_of L link = Some c then Some link else None)"
  by (cases "rev (filter (\<lambda>link. category_of L link = Some c) links)")
     (simp_all add: last_match_def)

lemma personal_contacts_loop_Cons:
  "personal_contacts_loop L (link # links) pc =
     personal_contacts_loop L links
       (case category_of L link of
          None \<Rightarrow> pc
        | Some Email \<Rightarrow> pc\<lparr>email := stored_value Email link\<rparr>
        | Some Linkedin \<Rightarrow> pc\<lparr>linkedin := stored_value Linkedin link\<rparr>
        | Some Twitter \<Rightarrow> pc\<lparr>twitter := stored_value Twitter link\<rparr>
        | Some Website \<Rightarrow> pc\<lparr>website := stored_value Website link\<rparr>)"
  by (simp add: category_of_def Let_def)

lemma personal_contacts_loop_last:
  "contact c (personal_contacts_loop L links pc) =
     (case last_match L c links of
        None \<Rightarrow> contact c pc
      | Some link \<Rightarrow> stored_value c link)"
proof (induction links arbitrary: pc)
  case Nil
  then show ?case by (simp add: last_match_def)
next
  case (Cons link links)
  show ?case
    unfolding personal_contacts_loop_Cons Cons.IH last_match_Cons
    by (cases c; cases "last_match L c links"; cases "category_of L link")
       (auto split: category.splits)
qed

lemma personal_contacts_loop_skip:
  "personal_contacts_loop L (filter (\<lambda>link. \<not> is_mercury_link (href (snd link))) links) pc =
   personal_contacts_loop L links pc"
  by (induction links arbitrary: pc) (simp_all add: Let_def)

text \<open>
  C6. Anchors whose target contains one of the platform's own domains do not take part:
  dropping them from the list changes nothing. For each of the four categories, the value
  kept is the one stored by the last anchor of the document that the classification puts
  in that category; when there is none the value is as before the loop, which is the
  empty string for a whole page.
\<close>

theorem last_matching_anchor_kept:
  "personal_contacts_loop L (filter (\<lambda>link. \<not> is_mercury_link (href (snd link))) links) pc =
     personal_contacts_loop L links pc \<and>
   (\<forall>c. contact c (personal_contacts_loop L links pc) =
      (case last_match L c links of
         None \<Rightarrow> contact c pc
       | Some link \<Rightarrow> stored_value c link)) \<and>
   (\<forall>c. contact c (extract_personal_contacts L soup) =
      (case last_match L c (find_all_a_href ([], soup)) of
         None \<Rightarrow> []
       | Some link \<Rightarrow> stored_value c link))"
proof -
  have "contact c (extract_personal_contacts L soup) =
      (case last_match L c (find_all_a_href ([], soup)) of
         None \<Rightarrow> []
       | Some link \<Rightarrow> stored_value c link)" for c
    unfolding extract_personal_contacts_def personal_contacts_loop_last
    by (cases c) (simp_all split: option.splits)
  then show ?thesis
    using personal_contacts_loop_skip personal_contacts_loop_last by blast
qed

lemma anchors_jane:
  "find_all_a_href ([], page_jane) =
     [([5], anchor ''mailto:jane@x.com'' ''Email''),
      ([6], anchor ''https://mercury.com/blog'' ''Blog''),
      ([7], anchor ''mailto:jd@y.org'' ''Other'')]"
  by (simp add: page_jane_def markup_defs)

lemmas contact_defs =
  last_match_def category_of_def is_mercury_link_def has_personal_indicator_def base_url_def
  anchor_def href_def get_text_def py_in_def sublist_code(3) startswith_def str_def
  ascii_lib_def ascii_lower_def

lemma last_email_jane:
  "last_match ascii_lib Email (find_all_a_href ([], page_jane)) =
     Some ([7], anchor ''mailto:jd@y.org'' ''Other'')"
  by (simp add: anchors_jane contact_defs)

lemma last_website_jane:
  "last_match ascii_lib Website (find_all_a_href ([], page_jane)) = None"
  by (simp add: anchors_jane contact_defs)

theorem last_matching_anchor_kept_witness:
  "find_all_a_href ([], page_jane) =
     [([5], anchor ''mailto:jane@x.com'' ''Email''),
      ([6], anchor ''https://mercury.com/blog'' ''Blog''),
      ([7], anchor ''mailto:jd@y.org'' ''Other'')] \<and>
   is_mercury_link (str ''https://mercury.com/blog'') \<and>
   contact Email (extract_personal_contacts ascii_lib page_jane) = str ''jd@y.org'' \<and>
   contact Website (extract_personal_contacts ascii_lib page_jane) = []"
proof -
  note T = last_matching_anchor_kept[of ascii_lib "[]"
      "\<lparr>email = [], linkedin = [], twitter = [], website = []\<rparr>" page_jane,
      THEN conjunct2, THEN conjunct2]
  have e: "contact Email (extract_personal_contacts ascii_lib page_jane) = str ''jd@y.org''"
    using T[rule_format, of Email]
    by (simp add: last_email_jane) (simp add: anchor_def href_def str_def)
  have w: "contact Website (extract_personal_contacts ascii_lib page_jane) = []"
    using T[rule_format, of Website] by (simp add: last_website_jane)
  have m: "is_mercury_link (str ''https://mercury.com/blog'')"
    by (simp add: is_mercury_link_def py_in_def sublist_code(3) str_def)
  show ?thesis using e w m anchors_jane by simp
qed


section \<open>Industries and geography\<close>

lemma scrape_success:
  assumes "status (fst (scrape_investor_data L E u w)) = str ''success''"
  shows "fst (scrape_investor_data L E u w) =
           \<lparr> url = u,
             name = extract_name L (pages E u) u,
             industries = extract_industries L (pages E u),
             stages = parse_list_field (extract_structured_field L (pages E u) (str ''Stages'')),
             check_range = strip (extract_structured_field L (pages E u) (str ''Check Range'')),
             bio = (if 50 < length (bio_candidate L (pages E u))
                    then bio_candidate L (pages E u) else []),
             geography =
               parse_list_field (extract_structured_field L (pages E u) (str ''Geography'')),
             contacts = extract_personal_contacts L (pages E u),
             contact_info = extract_contact_info L (pages E u),
             scraped_date = clock E (ticks w),
             status = str ''success'',
             error = None \<rparr>"
proof -
  let ?S = "statements L (pages E u) u" and ?d = "initial_data u (clock E (ticks w))"
  have "try_block (raises E u) ?S ?d = foldl (\<lambda>d f. f d) ?d (map snd ?S)"
    using try_block_outcome[of "raises E u" ?S ?d] assms status_values
    by (auto simp: scrape_investor_data_def)
  then show ?thesis
    by (auto simp: scrape_investor_data_def statements_def initial_data_def Let_def
        parse_list_field_def strip_def)
qed

lemma industry_links_loop_filter:
  "industry_links_loop links found = filter_links_loop (str ''industries='') links found"
  by (induction links arbitrary: found) (simp_all add: Let_def)

lemma extract_industries_spec:
  "extract_industries L soup = spec_link_field L soup (str ''industries'') (str ''industries='')"
  by (simp add: extract_industries_def spec_link_field_def industry_links_loop_filter
      split: option.splits)

lemma geography_links_code:
  "extract_structured_field ascii_lib page_geo_links (str ''Geography'') = []"
  by (simp add: extract_structured_field_def page_geo_links_def markup_defs)

lemma geography_links_spec:
  "spec_link_field ascii_lib page_geo_links (str ''geography'') (str ''geography='') = [str ''US'']"
  by (simp add: spec_link_field_def page_geo_links_def markup_defs)

lemma geography_jane_spec:
  "spec_link_field ascii_lib page_jane (str ''geography'') (str ''geography='') = []"
  by (simp add: spec_link_field_def page_jane_def markup_defs)

text \<open>
  C1, as stated, fails. On the page whose geography is a paragraph the record has the two
  places and the link procedure finds nothing; on the page whose geography is a \<^verbatim>\<open>div\<close>
  of filter links the record has nothing and the link procedure finds the link.
\<close>

theorem geography_not_like_industries:
  "geography (fst (scrape_investor_data ascii_lib (env_of directory_page page_jane no_fault)
      url_jane world0)) \<noteq>
     spec_link_field ascii_lib page_jane (str ''geography'') (str ''geography='') \<and>
   geography (fst (scrape_investor_data ascii_lib (env_of directory_page page_geo_links no_fault)
      url_jane world0)) \<noteq>
     spec_link_field ascii_lib page_geo_links (str ''geography'') (str ''geography='') \<and>
   geography (fst (scrape_investor_data ascii_lib (env_of directory_page page_jane no_fault)
      url_jane world0)) = [str ''United States'', str ''Canada''] \<and>
   spec_link_field ascii_lib page_jane (str ''geography'') (str ''geography='') = [] \<and>
   geography (fst (scrape_investor_data ascii_lib (env_of directory_page page_geo_links no_fault)
      url_jane world0)) = [] \<and>
   spec_link_field ascii_lib page_geo_links (str ''geography'') (str ''geography='') = [str ''US'']"
  by (simp add: scrape_no_fault env_of_simps no_fault_def geography_jane parse_geography_jane
      geography_jane_spec geography_links_code geography_links_spec)
     (simp add: parse_list_field_def str_def)

text \<open>
  C1, amended. When the extraction succeeds, the industries are collected by the link
  procedure, and the geography is obtained like the stages: the stripped text of the
  paragraph located for the heading \<^verbatim>\<open>Geography\<close>, split by the list parser.
\<close>

theorem geography_like_stages:
  assumes "status (fst (scrape_investor_data L E u w)) = str ''success''"
  shows "geography (fst (scrape_investor_data L E u w)) =
           parse_list_field (extract_structured_field L (pages E u) (str ''Geography'')) \<and>
         stages (fst (scrape_investor_data L E u w)) =
           parse_list_field (extract_structured_field L (pages E u) (str ''Stages'')) \<and>
         industries (fst (scrape_investor_data L E u w)) =
           spec_link_field L (pages E u) (str ''industries'') (str ''industries='')"
  using scrape_success[OF assms] by (simp add: extract_industries_spec)

theorem geography_like_stages_witness:
  "status (fst (scrape_investor_data ascii_lib (env_of directory_page page_jane no_fault)
      url_jane world0)) = str ''success'' \<and>
   geography (fst (scrape_investor_data ascii_lib (env_of directory_page page_jane no_fault)
      url_jane world0)) = [str ''United States'', str ''Canada'']"
proof -
  have s: "status (fst (scrape_investor_data ascii_lib (env_of directory_page page_jane no_fault)
      url_jane world0)) = str ''success''"
    by (simp add: scrape_no_fault env_of_simps no_fault_def)
  show ?thesis
    using s geography_like_stages[OF s, THEN conjunct1]
    by (simp add: env_of_simps geography_jane parse_geography_jane)
qed


section \<open>Properties of the crawl driver\<close>















lemma collect_empty_directory_page:
  "collect_investor_urls ascii_lib (env_of empty_directory_page page_jane no_fault) = Inr []"
  by (simp add: collect_investor_urls_def env_of_simps collect_def hrefs_empty_directory_page
      url_defs)


text \<open>
  C2, as stated, fails: for a directory page without matching anchors the returned dict
  has no total at all, so it does not report a total of 0.
\<close>

theorem no_urls_reports_no_total:
  "collect_investor_urls ascii_lib (env_of empty_directory_page page_jane no_fault) = Inr [] \<and>
   returned (crawl_all_investors ascii_lib (env_of empty_directory_page page_jane no_fault) world0) =
     Some (No_urls (str ''No URLs found'')) \<and>
   Option.bind
     (returned (crawl_all_investors ascii_lib (env_of empty_directory_page page_jane no_fault)
        world0))
     reported_total \<noteq> Some 0"
  by (simp add: collect_empty_directory_page crawl_all_investors_def Let_def)

text \<open>
  C2, amended. If the collector yields no address, the driver returns the dict
  \<^verbatim>\<open>{"error": "No URLs found"}\<close>, which has no summary and no total; no extraction is
  started, and no exception (in particular no division by zero) leaves the function.
\<close>

theorem no_urls_terminal_result:
  assumes "collect_investor_urls L E = Inr []"
  shows "crawl_all_investors L E w =
           (Inr (No_urls (str ''No URLs found'')), w\<lparr>ticks := Suc (ticks w)\<rparr>) \<and>
         Option.bind (returned (crawl_all_investors L E w)) reported_total = None \<and>
         attempted (snd (crawl_all_investors L E w)) = attempted w \<and>
         fst (crawl_all_investors L E w) \<noteq> Inl ZeroDivisionError"
  using assms by (simp add: crawl_all_investors_def Let_def)

theorem no_urls_terminal_result_witness:
  "collect_investor_urls ascii_lib (env_of empty_directory_page page_jane no_fault) = Inr [] \<and>
   crawl_all_investors ascii_lib (env_of empty_directory_page page_jane no_fault) world0 =
     (Inr (No_urls (str ''No URLs found'')), \<lparr>ticks = 1, attempted = []\<rparr>)"
  using no_urls_terminal_result[OF collect_empty_directory_page, of world0]
    collect_empty_directory_page
  by (simp add: world0_def)


end
